theory Spec2Isabelle
  imports Main
begin

section \<open>Validated fetch utility and mutation helpers\<close>

text \<open>
  A shallow embedding of \<^verbatim>\<open>src/queries/fetch.ts\<close> and \<^verbatim>\<open>src/queries/mutate.ts\<close>.
  A promise that rejects and a \<^verbatim>\<open>throw\<close> are the left injection of a sum, a value that
  is returned is the right injection. The platform (\<^verbatim>\<open>fetch\<close>, \<^verbatim>\<open>Response.json\<close>,
  \<^verbatim>\<open>JSON.stringify\<close>) and the Zod schemas are parameters of the model; every call of
  \<^verbatim>\<open>fetch\<close> is recorded, in order, in the list of issued requests.
\<close>

subsection \<open>Values\<close>

text \<open>
  Parsed JSON documents. \<open>JNull\<close> is JavaScript's \<^verbatim>\<open>null\<close>. Numbers are kept as
  integers: the code passes parsed values on and never computes with them.
\<close>

datatype json =
    JNull
  | JBool bool
  | JNum int
  | JStr string
  | JArr "json list"
  | JObj "(string \<times> json) list"

text \<open>The diagnostics of a \<^verbatim>\<open>ZodError\<close>: its issues, each a path and a message.\<close>

datatype zod_error = ZodIssues "(string list \<times> string) list"

text \<open>
  What the field \<^verbatim>\<open>data?: unknown\<close> of a \<^verbatim>\<open>FetchError\<close> can hold: \<^verbatim>\<open>undefined\<close>
  (the constructor's third argument was not given), a JSON value (among them
  \<^verbatim>\<open>null\<close>), or the \<^verbatim>\<open>ZodError\<close> object.
\<close>

datatype js_data = Undefined | JsonValue json | ZodErrorValue zod_error

text \<open>
  \<^verbatim>\<open>class FetchError extends Error\<close>: the constructor stores its three arguments;
  \<open>status = None\<close> is \<^verbatim>\<open>undefined\<close>.
\<close>

record fetch_error =
  message :: string
  status :: "nat option"
  data :: js_data

text \<open>
  The values a \<^verbatim>\<open>catch\<close> clause can receive, by the \<^verbatim>\<open>instanceof\<close> tests the
  source applies: a \<^verbatim>\<open>FetchError\<close>, a \<^verbatim>\<open>ZodError\<close>, any other \<^verbatim>\<open>Error\<close> instance
  (with its message), or a value that is no \<^verbatim>\<open>Error\<close> at all.
\<close>

datatype thrown =
    FetchError fetch_error
  | ZodError zod_error
  | Error string
  | NonError json

subsection \<open>Requests, responses and options\<close>

text \<open>
  The object literal passed as \<^verbatim>\<open>headers\<close> to \<^verbatim>\<open>fetch\<close>: its own properties in the order
  of their creation. A value is a string or, where an array of pairs was spread into the
  object, one element of that array. (JavaScript enumerates keys that are array indices
  before the others; no function here depends on the order between different keys.)
\<close>

datatype header_value = Text string | Pair "string list"

type_synonym header_object = "(string \<times> header_value) list"

text \<open>
  The caller's \<^verbatim>\<open>headers\<close> have the type \<^verbatim>\<open>HeadersInit\<close> of \<^verbatim>\<open>RequestInit\<close>: a plain object
  from names to values, a \<^verbatim>\<open>Headers\<close> instance, or an array of name and value pairs.
\<close>

datatype headers_init =
    PlainObject "(string \<times> string) list"
  | HeadersInstance "(string \<times> string) list"
  | PairArray "string list list"

text \<open>The arguments of one call of \<^verbatim>\<open>fetch(url, init)\<close>.\<close>

record request =
  req_url :: string
  req_method :: "string option"
  req_body :: "string option"
  req_headers :: header_object

text \<open>
  A \<^verbatim>\<open>Response\<close>: its numeric status and the outcome of \<^verbatim>\<open>response.json()\<close>, which
  resolves with the parsed body or rejects.
\<close>

record response =
  resp_status :: nat
  resp_json :: "thrown + json"

text \<open>\<^verbatim>\<open>response.ok\<close> of the Fetch standard: the status is in the range 200 to 299.\<close>

definition ok :: "response \<Rightarrow> bool" where
  "ok r = (200 \<le> resp_status r \<and> resp_status r \<le> 299)"

text \<open>
  A schema is used through \<^verbatim>\<open>schema.parse(data)\<close> only: it returns the validated value
  or throws.
\<close>

type_synonym schema = "json \<Rightarrow> thrown + json"

text \<open>\<^verbatim>\<open>interface FetchOptions extends RequestInit { schema?: ZodType }\<close>\<close>

record fetch_options =
  opt_schema :: "schema option"
  opt_method :: "string option"
  opt_body :: "string option"
  opt_headers :: "headers_init option"

text \<open>The empty options object \<^verbatim>\<open>{}\<close>.\<close>

definition no_options :: fetch_options where
  "no_options = \<lparr>opt_schema = None, opt_method = None, opt_body = None, opt_headers = None\<rparr>"

text \<open>The outcome of a call together with the requests it issued.\<close>

record 'a run =
  outcome :: "thrown + 'a"
  calls :: "request list"

subsection \<open>Numbers in template literals\<close>

definition digit_char :: "nat \<Rightarrow> char" where
  "digit_char d = char_of (48 + d)"

text \<open>The decimal numeral of a natural number, as \<^verbatim>\<open>`${n}`\<close> prints it.\<close>

function show_nat :: "nat \<Rightarrow> string" where
  "show_nat n = (if n < 10 then [digit_char n] else show_nat (n div 10) @ [digit_char (n mod 10)])"
  by pat_completeness auto
termination
  by (relation "measure id") auto

declare show_nat.simps [simp del]

subsection \<open>fetchData\<close>

definition default_headers :: header_object where
  "default_headers = [(''Content-Type'', Text ''application/json'')]"

text \<open>Setting a property: an existing key keeps its place, a new key is added at the end.\<close>

fun set_property :: "string \<Rightarrow> header_value \<Rightarrow> header_object \<Rightarrow> header_object" where
  "set_property k v [] = [(k, v)]"
| "set_property k v ((k', v') # ps) =
     (if k = k' then (k, v) # ps else (k', v') # set_property k v ps)"

text \<open>
  The own enumerable properties that \<^verbatim>\<open>...headers\<close> copies: the entries of a plain object;
  none for a \<^verbatim>\<open>Headers\<close> instance, which keeps its entries in an internal list; the
  indices of an array, each with its element.
\<close>

fun own_properties :: "headers_init \<Rightarrow> header_object" where
  "own_properties (PlainObject ps) = map (\<lambda>(k, v). (k, Text v)) ps"
| "own_properties (HeadersInstance hs) = []"
| "own_properties (PairArray ps) = zip (map show_nat [0..<length ps]) (map Pair ps)"

definition spread :: "header_object \<Rightarrow> header_object \<Rightarrow> header_object" where
  "spread target source = fold (\<lambda>(k, v). set_property k v) source target"

text \<open>
  \<^verbatim>\<open>{ 'Content-Type': 'application/json', ...fetchOptions.headers }\<close>: the caller's
  properties are spread after the default one; spreading \<^verbatim>\<open>undefined\<close> adds nothing.
\<close>

definition merge_headers :: "headers_init option \<Rightarrow> header_object" where
  "merge_headers h =
     (case h of None \<Rightarrow> default_headers | Some hs \<Rightarrow> spread default_headers (own_properties hs))"

definition build_request :: "string \<Rightarrow> fetch_options \<Rightarrow> request" where
  "build_request url fetchOptions =
     \<lparr>req_url = url, req_method = opt_method fetchOptions, req_body = opt_body fetchOptions,
      req_headers = merge_headers (opt_headers fetchOptions)\<rparr>"

text \<open>The statements after \<^verbatim>\<open>await fetch(...)\<close> inside the \<^verbatim>\<open>try\<close> block.\<close>

definition handle_response :: "schema option \<Rightarrow> response \<Rightarrow> thrown + json" where
  "handle_response schema response =
     (if \<not> ok response then
        (let errorData = (case resp_json response of Inl _ \<Rightarrow> JNull | Inr d \<Rightarrow> d)
         in Inl (FetchError
              \<lparr>message = ''HTTP error! status: '' @ show_nat (resp_status response),
               status = Some (resp_status response),
               data = JsonValue errorData\<rparr>))
      else
        (case resp_json response of
           Inl e \<Rightarrow> Inl e
         | Inr d \<Rightarrow>
             (case schema of
                Some s \<Rightarrow> s d
              | None \<Rightarrow> Inr d)))"


text \<open>
  The \<^verbatim>\<open>catch (error)\<close> block: what it throws for the value it receives. The tests are
  made in the source's order: \<^verbatim>\<open>FetchError\<close>, then \<^verbatim>\<open>z.ZodError\<close>, then \<^verbatim>\<open>Error\<close>.
\<close>

fun catch_block :: "thrown \<Rightarrow> thrown" where
  "catch_block (FetchError e) = FetchError e"
| "catch_block (ZodError z) =
     FetchError \<lparr>message = ''Response validation failed'', status = None, data = ZodErrorValue z\<rparr>"
| "catch_block (Error m) = FetchError \<lparr>message = m, status = None, data = Undefined\<rparr>"
| "catch_block (NonError v) =
     FetchError \<lparr>message = ''Unknown error'', status = None, data = Undefined\<rparr>"

definition try_block :: "(request \<Rightarrow> thrown + response) \<Rightarrow> request \<Rightarrow> schema option \<Rightarrow> thrown + json" where
  "try_block fetch req schema =
     (case fetch req of
        Inl e \<Rightarrow> Inl e
      | Inr response \<Rightarrow> handle_response schema response)"

text \<open>\<^verbatim>\<open>options || {}\<close>\<close>

definition given :: "fetch_options option \<Rightarrow> fetch_options" where
  "given options = (case options of None \<Rightarrow> no_options | Some x \<Rightarrow> x)"

definition fetchData ::
  "(request \<Rightarrow> thrown + response) \<Rightarrow> string \<Rightarrow> fetch_options option \<Rightarrow> json run" where
  "fetchData fetch url options =
     (let opts = given options;
          req = build_request url opts
      in \<lparr>outcome =
            (case try_block fetch req (opt_schema opts) of
               Inl e \<Rightarrow> Inl (catch_block e)
             | Inr v \<Rightarrow> Inr v),
          calls = [req]\<rparr>)"

subsection \<open>Identifier format\<close>

text \<open>
  The test \<^verbatim>\<open>/^[0-9a-f]{8}-[0-9a-f]{4}-[0-9a-f]{4}-[0-9a-f]{4}-[0-9a-f]{12}$/i.test(id)\<close>,
  read from left to right. Under the flag \<^verbatim>\<open>i\<close> the class \<^verbatim>\<open>[0-9a-f]\<close> also
  matches the letters A to F; \<^verbatim>\<open>^\<close> and \<^verbatim>\<open>$\<close> anchor the match at both ends of the
  string.
\<close>

definition is_hex :: "char \<Rightarrow> bool" where
  "is_hex c = (c \<in> set ''0123456789abcdefABCDEF'')"

text \<open>\<^verbatim>\<open>[0-9a-f]{n}\<close> at the start of the string: the rest of the string after the match.\<close>

fun hex_run :: "nat \<Rightarrow> string \<Rightarrow> string option" where
  "hex_run 0 s = Some s"
| "hex_run (Suc n) [] = None"
| "hex_run (Suc n) (c # s) = (if is_hex c then hex_run n s else None)"

fun dash :: "string \<Rightarrow> string option" where
  "dash [] = None"
| "dash (c # s) = (if c = CHR ''-'' then Some s else None)"

definition uuid_test :: "string \<Rightarrow> bool" where
  "uuid_test s =
     (Option.bind (Option.bind (Option.bind (Option.bind (Option.bind (Option.bind
        (Option.bind (Option.bind (hex_run 8 s) dash) (hex_run 4)) dash) (hex_run 4)) dash)
        (hex_run 4)) dash) (hex_run 12) = Some [])"

text \<open>
  The identifier format in the specification's words: five groups of 8, 4, 4, 4 and 12
  hexadecimal digits of either case, joined by hyphens.
\<close>

definition hex_group :: "nat \<Rightarrow> string \<Rightarrow> bool" where
  "hex_group n g = (length g = n \<and> list_all is_hex g)"

definition canonical_uuid :: "string \<Rightarrow> bool" where
  "canonical_uuid s =
     (length s = 36 \<and>
      hex_group 8 (take 8 s) \<and> s ! 8 = CHR ''-'' \<and>
      hex_group 4 (take 4 (drop 9 s)) \<and> s ! 13 = CHR ''-'' \<and>
      hex_group 4 (take 4 (drop 14 s)) \<and> s ! 18 = CHR ''-'' \<and>
      hex_group 4 (take 4 (drop 19 s)) \<and> s ! 23 = CHR ''-'' \<and>
      hex_group 12 (drop 24 s))"

subsection \<open>Query and mutation helpers\<close>

text \<open>
  What the helpers take from their surroundings: \<^verbatim>\<open>fetch\<close>, \<^verbatim>\<open>JSON.stringify\<close> and the
  schemas \<^verbatim>\<open>userSchema\<close> and \<^verbatim>\<open>postSchema\<close> of \<^verbatim>\<open>schemas/api\<close>, which are Zod objects.
\<close>

record env =
  net_fetch :: "request \<Rightarrow> thrown + response"
  json_stringify :: "json \<Rightarrow> string"
  userSchema :: schema
  postSchema :: schema

text \<open>\<^verbatim>\<open>throw\<close> before any request was issued.\<close>

definition throw_early :: "thrown \<Rightarrow> 'a run" where
  "throw_early e = \<lparr>outcome = Inl e, calls = []\<rparr>"

text \<open>\<^verbatim>\<open>await fetchData(url, { method: 'DELETE' })\<close>; the function returns nothing.\<close>

definition deleteResource :: "env \<Rightarrow> string \<Rightarrow> unit run" where
  "deleteResource env url =
     (let r = fetchData (net_fetch env) url
                (Some \<lparr>opt_schema = None, opt_method = Some ''DELETE'', opt_body = None,
                       opt_headers = None\<rparr>)
      in \<lparr>outcome = (case outcome r of Inl e \<Rightarrow> Inl e | Inr _ \<Rightarrow> Inr ()), calls = calls r\<rparr>)"

record post_input =
  title :: string
  content :: string


record user_input =
  name :: string
  email :: string

text \<open>For a string \<^verbatim>\<open>s\<close>, \<^verbatim>\<open>!s\<close> holds exactly when \<^verbatim>\<open>s\<close> is empty.\<close>

definition updateUser :: "env \<Rightarrow> string \<Rightarrow> user_input \<Rightarrow> json run" where
  "updateUser env userId d =
     (if \<not> uuid_test userId then throw_early (Error ''Invalid user ID format'')
      else if name d = [] \<or> email d = [] then throw_early (Error ''Name and email are required'')
      else fetchData (net_fetch env) (''/api/users/'' @ userId)
             (Some \<lparr>opt_schema = Some (userSchema env), opt_method = Some ''PUT'',
                    opt_body = Some (json_stringify env
                      (JObj [(''name'', JStr (name d)), (''email'', JStr (email d))])),
                    opt_headers = None\<rparr>))"

definition deletePost :: "env \<Rightarrow> string \<Rightarrow> unit run" where
  "deletePost env postId =
     (if \<not> uuid_test postId then throw_early (Error ''Invalid post ID format'')
      else deleteResource env (''/api/posts/'' @ postId))"


subsection \<open>Notions of the specification\<close>

text \<open>
  The specification calls the diagnostic data of an error absent when the field holds
  none: it is \<^verbatim>\<open>undefined\<close> or \<^verbatim>\<open>null\<close>.
\<close>

definition absent :: "js_data \<Rightarrow> bool" where
  "absent d = (d = Undefined \<or> d = JsonValue JNull)"

text \<open>
  A request goes through without a failure: \<^verbatim>\<open>fetch\<close> resolves, the status is in the 2xx
  range, the body parses, and the schema, when one is used, accepts the parsed body.
\<close>

definition completes :: "(request \<Rightarrow> thrown + response) \<Rightarrow> request \<Rightarrow> schema option \<Rightarrow> bool" where
  "completes fetch req schema =
     (case fetch req of
        Inl _ \<Rightarrow> False
      | Inr response \<Rightarrow>
          ok response \<and>
          (case resp_json response of
             Inl _ \<Rightarrow> False
           | Inr d \<Rightarrow>
               (case schema of
                  None \<Rightarrow> True
                | Some s \<Rightarrow> (case s d of Inl _ \<Rightarrow> False | Inr _ \<Rightarrow> True))))"

subsection \<open>Reading a decimal numeral\<close>

definition digit_value :: "char \<Rightarrow> nat" where
  "digit_value c = of_char c - 48"

definition read_nat :: "string \<Rightarrow> nat" where
  "read_nat s = foldl (\<lambda>acc c. 10 * acc + digit_value c) 0 s"

subsection \<open>Sample inputs\<close>

text \<open>Scenario 2 of the specification: status 404 with the body \<^verbatim>\<open>{"message":"not found"}\<close>.\<close>

definition not_found_response :: response where
  "not_found_response =
     \<lparr>resp_status = 404, resp_json = Inr (JObj [(''message'', JStr ''not found'')])\<rparr>"

definition fetch_not_found :: "request \<Rightarrow> thrown + response" where
  "fetch_not_found req = Inr not_found_response"

text \<open>A response 204 No Content: the body is empty and \<^verbatim>\<open>response.json()\<close> rejects.\<close>

definition no_content_response :: response where
  "no_content_response =
     \<lparr>resp_status = 204, resp_json = Inl (Error ''Unexpected end of JSON input'')\<rparr>"

definition fetch_no_content :: "request \<Rightarrow> thrown + response" where
  "fetch_no_content req = Inr no_content_response"

text \<open>A response 502 whose body is a page of markup, not JSON.\<close>

definition bad_gateway_response :: response where
  "bad_gateway_response =
     \<lparr>resp_status = 502, resp_json = Inl (Error ''Unexpected token < in JSON at position 0'')\<rparr>"

definition fetch_bad_gateway :: "request \<Rightarrow> thrown + response" where
  "fetch_bad_gateway req = Inr bad_gateway_response"

text \<open>Scenario 1 of the specification: status 200 with a user record.\<close>

definition jane :: json where
  "jane = JObj [(''id'', JStr ''550e8400-e29b-41d4-a716-446655440000''), (''name'', JStr ''Jane''),
                (''email'', JStr ''jane@x.com''), (''createdAt'', JStr ''2024-01-01T00:00:00.000Z'')]"

definition user_response :: response where
  "user_response = \<lparr>resp_status = 200, resp_json = Inr jane\<rparr>"

definition fetch_user :: "request \<Rightarrow> thrown + response" where
  "fetch_user req = Inr user_response"

text \<open>Scenario 3 of the specification: status 201 with a record that has no email.\<close>

definition created_response :: response where
  "created_response = \<lparr>resp_status = 201, resp_json = Inr (JObj [(''name'', JStr ''Jane'')])\<rparr>"

definition fetch_created :: "request \<Rightarrow> thrown + response" where
  "fetch_created req = Inr created_response"

text \<open>A request that never completes: \<^verbatim>\<open>fetch\<close> rejects.\<close>

definition fetch_rejects_string :: "request \<Rightarrow> thrown + response" where
  "fetch_rejects_string req = Inl (NonError (JStr ''offline''))"

definition fetch_rejects_fetch_error :: "request \<Rightarrow> thrown + response" where
  "fetch_rejects_fetch_error req =
     Inl (FetchError \<lparr>message = ''aborted'', status = Some 499, data = JsonValue (JBool False)\<rparr>)"

text \<open>
  A small schema: an object with a string field \<^verbatim>\<open>email\<close>, of which the validated value
  keeps that field only.
\<close>

fun email_schema :: schema where
  "email_schema (JObj fs) =
     (case map_of fs ''email'' of
        Some (JStr e) \<Rightarrow> Inr (JObj [(''email'', JStr e)])
      | _ \<Rightarrow> Inl (ZodError (ZodIssues [([''email''], ''Invalid input'')])))"
| "email_schema _ = Inl (ZodError (ZodIssues [([], ''Invalid input'')]))"

text \<open>Headers of a caller that replaces the content type and adds a credential.\<close>

definition caller_headers :: headers_init where
  "caller_headers =
     PlainObject [(''Content-Type'', ''text/plain''), (''Authorization'', ''Bearer token'')]"

text \<open>The same credential given as \<^verbatim>\<open>new Headers({ Authorization: 'Bearer token' })\<close>.\<close>

definition headers_instance :: headers_init where
  "headers_instance = HeadersInstance [(''Authorization'', ''Bearer token'')]"

text \<open>The same credential given as \<^verbatim>\<open>[['Authorization', 'Bearer token']]\<close>.\<close>

definition pair_array :: headers_init where
  "pair_array = PairArray [[''Authorization'', ''Bearer token'']]"

text \<open>A plain object that names the content type in lower case.\<close>

definition lowercase_headers :: headers_init where
  "lowercase_headers = PlainObject [(''content-type'', ''text/plain'')]"

definition sample_stringify :: "json \<Rightarrow> string" where
  "sample_stringify j = ''{}''"

definition sample_env :: env where
  "sample_env = \<lparr>net_fetch = fetch_not_found, json_stringify = sample_stringify,
                  userSchema = email_schema, postSchema = email_schema\<rparr>"

section \<open>Properties\<close>

subsection \<open>Auxiliary facts\<close>

lemma catch_block_FetchError: "\<exists>e. catch_block t = FetchError e"
  by (cases t) simp_all

lemma outcome_fetchData:
  "outcome (fetchData fetch url options) =
     (case try_block fetch (build_request url (given options)) (opt_schema (given options)) of
        Inl e \<Rightarrow> Inl (catch_block e) | Inr v \<Rightarrow> Inr v)"
  by (simp add: fetchData_def Let_def)

lemma calls_fetchData:
  "calls (fetchData fetch url options) = [build_request url (given options)]"
  by (simp add: fetchData_def Let_def)

lemma try_block_Inr_iff:
  "try_block fetch req schema = Inr v \<longleftrightarrow>
     (\<exists>response d. fetch req = Inr response \<and> ok response \<and> resp_json response = Inr d \<and>
        (case schema of None \<Rightarrow> v = d | Some s \<Rightarrow> s d = Inr v))"
  by (auto simp: try_block_def handle_response_def Let_def split: sum.splits option.splits)

lemma outcome_fetchData_Inr:
  "outcome (fetchData fetch url options) = Inr v \<longleftrightarrow>
     try_block fetch (build_request url (given options)) (opt_schema (given options)) = Inr v"
  by (simp add: outcome_fetchData split: sum.splits)

lemma fetchData_failure_typed:
  "outcome (fetchData fetch url options) = Inl t \<Longrightarrow> \<exists>e. t = FetchError e"
  using catch_block_FetchError by (auto simp: outcome_fetchData split: sum.splits)




lemma calls_deleteResource:
  "calls (deleteResource env url) =
     [\<lparr>req_url = url, req_method = Some ''DELETE'', req_body = None, req_headers = default_headers\<rparr>]"
  by (simp add: deleteResource_def Let_def calls_fetchData given_def build_request_def
      merge_headers_def)

text \<open>\<open>show_nat\<close> writes the decimal numeral: reading it back gives the number.\<close>

lemma digit_value_digit_char: "d < 10 \<Longrightarrow> digit_value (digit_char d) = d"
  by (simp add: digit_value_def digit_char_def)

lemma read_nat_snoc: "read_nat (s @ [c]) = 10 * read_nat s + digit_value c"
  by (simp add: read_nat_def)

lemma read_nat_show_nat: "read_nat (show_nat n) = n"
proof (induction n rule: show_nat.induct)
  case (1 n)
  show ?case
  proof (cases "n < 10")
    case True
    then show ?thesis
      by (subst show_nat.simps) (simp add: read_nat_def digit_value_digit_char)
  next
    case False
    with "1" have "read_nat (show_nat (n div 10)) = n div 10" by simp
    with False show ?thesis
      by (subst show_nat.simps) (simp add: read_nat_snoc digit_value_digit_char)
  qed
qed

lemma show_nat_0: "show_nat 0 = ''0''"
  by code_simp

lemma show_nat_404: "show_nat 404 = ''404''"
  by code_simp

lemma show_nat_502: "show_nat 502 = ''502''"
  by code_simp

text \<open>
  The regular expression of the source accepts exactly the identifiers of the
  specification's format. Each step of the match consumes a prefix of the string, so
  the state after \<open>k\<close> characters is \<open>drop k s\<close>.
\<close>

lemma hex_run_iff:
  "hex_run n s = Some r \<longleftrightarrow> n \<le> length s \<and> list_all is_hex (take n s) \<and> r = drop n s"
  by (induction n s rule: hex_run.induct) auto

lemma dash_iff: "dash s = Some r \<longleftrightarrow> 1 \<le> length s \<and> s ! 0 = CHR ''-'' \<and> r = drop 1 s"
  by (cases s) auto

lemma bind_eq_Some: "Option.bind x f = Some y \<longleftrightarrow> (\<exists>z. x = Some z \<and> f z = Some y)"
  by (cases x) auto

lemma bind_hex_run:
  assumes "\<And>r. x = Some r \<longleftrightarrow> A \<and> k \<le> length s \<and> r = drop k s"
  shows "Option.bind x (hex_run n) = Some r \<longleftrightarrow>
     (A \<and> list_all is_hex (take n (drop k s))) \<and> k + n \<le> length s \<and> r = drop (k + n) s"
  unfolding bind_eq_Some assms hex_run_iff by (auto simp: add.commute)

lemma bind_dash:
  assumes "\<And>r. x = Some r \<longleftrightarrow> A \<and> k \<le> length s \<and> r = drop k s"
  shows "Option.bind x dash = Some r \<longleftrightarrow>
     (A \<and> s ! k = CHR ''-'') \<and> k + 1 \<le> length s \<and> r = drop (k + 1) s"
  unfolding bind_eq_Some assms dash_iff by (auto simp: add.commute)

lemma start_hex_run:
  "hex_run n s = Some r \<longleftrightarrow>
     list_all is_hex (take n (drop 0 s)) \<and> 0 + n \<le> length s \<and> r = drop (0 + n) s"
  by (auto simp: hex_run_iff)

lemmas uuid_chain =
  bind_hex_run [OF bind_dash [OF bind_hex_run [OF bind_dash [OF bind_hex_run [OF bind_dash
    [OF bind_hex_run [OF bind_dash [OF start_hex_run]]]]]]]]

lemma uuid_test_canonical: "uuid_test s = canonical_uuid s"
  unfolding uuid_test_def canonical_uuid_def hex_group_def uuid_chain
  by (auto simp: min_def)

lemma uuid_test_abc: "\<not> uuid_test ''abc''"
  by code_simp

lemma uuid_test_sample: "uuid_test ''550e8400-e29b-41d4-a716-446655440000''"
  by code_simp

lemma uuid_test_upper: "uuid_test ''550E8400-E29B-41D4-A716-446655440000''"
  by code_simp

lemma not_Inl_iff: "(\<forall>x. y \<noteq> Inl x) \<longleftrightarrow> (\<exists>v. y = Inr v)"
  by (cases y) auto

lemma fetchData_returns_completes:
  "(\<exists>v. outcome (fetchData fetch url options) = Inr v) \<longleftrightarrow>
     completes fetch (build_request url (given options)) (opt_schema (given options))"
  by (auto simp: outcome_fetchData_Inr try_block_def handle_response_def completes_def
      not_Inl_iff split: sum.splits option.splits)

lemma outcome_fetchData_thrown:
  assumes "fetch (build_request url (given options)) = Inl t \<or>
           (\<exists>response. fetch (build_request url (given options)) = Inr response \<and> ok response \<and>
              (resp_json response = Inl t \<or>
               (\<exists>d s. resp_json response = Inr d \<and> opt_schema (given options) = Some s \<and>
                  s d = Inl t)))"
  shows "outcome (fetchData fetch url options) = Inl (catch_block t)"
proof -
  from assms
  have "try_block fetch (build_request url (given options)) (opt_schema (given options)) = Inl t"
    by (auto simp: try_block_def handle_response_def)
  then show ?thesis
    by (simp add: outcome_fetchData)
qed

lemma outcome_deleteResource:
  "outcome (deleteResource env url) =
     (case outcome (fetchData (net_fetch env) url
        (Some \<lparr>opt_schema = None, opt_method = Some ''DELETE'', opt_body = None,
               opt_headers = None\<rparr>)) of Inl e \<Rightarrow> Inl e | Inr v \<Rightarrow> Inr ())"
  by (simp add: deleteResource_def Let_def)

lemma deleteResource_returns_completes:
  "outcome (deleteResource env url) = Inr () \<longleftrightarrow>
     completes (net_fetch env)
       \<lparr>req_url = url, req_method = Some ''DELETE'', req_body = None,
        req_headers = default_headers\<rparr> None"
proof -
  have "outcome (deleteResource env url) = Inr () \<longleftrightarrow>
      (\<exists>v. outcome (fetchData (net_fetch env) url
        (Some \<lparr>opt_schema = None, opt_method = Some ''DELETE'', opt_body = None,
               opt_headers = None\<rparr>)) = Inr v)"
    by (simp add: outcome_deleteResource split: sum.splits)
  then show ?thesis
    by (simp add: fetchData_returns_completes given_def build_request_def merge_headers_def)
qed

text \<open>Spreading a plain object: a later property replaces an earlier one of the same key.\<close>

lemma map_of_set_property: "map_of (set_property k v ps) = (map_of ps)(k \<mapsto> v)"
  by (induction ps) (auto simp: fun_eq_iff)

lemma map_of_fold_set_property:
  "map_of (fold (\<lambda>(k, v). set_property k v) src tgt) = map_of tgt ++ map_of (rev src)"
proof (induction src arbitrary: tgt)
  case Nil
  then show ?case by simp
next
  case (Cons p src)
  obtain k v where p: "p = (k, v)" by (cases p)
  show ?case
    by (simp add: p Cons.IH map_of_set_property fun_eq_iff map_add_def split: option.splits)
qed

lemma map_of_rev_distinct: "distinct (map fst xs) \<Longrightarrow> map_of (rev xs) = map_of xs"
proof (induction xs)
  case Nil
  then show ?case by simp
next
  case (Cons p xs)
  obtain k v where p: "p = (k, v)" by (cases p)
  from Cons.prems have "map_of xs k = None"
    by (simp add: p map_of_eq_None_iff)
  with Cons show ?case
    by (auto simp: p fun_eq_iff map_add_def split: option.splits)
qed

lemma map_of_spread_plain:
  assumes "distinct (map fst hs)"
  shows "map_of (spread tgt (own_properties (PlainObject hs))) k =
           (case map_of hs k of Some v \<Rightarrow> Some (Text v) | None \<Rightarrow> map_of tgt k)"
proof -
  have d: "distinct (map fst (map (\<lambda>(k, v). (k, Text v)) hs))"
    using assms by (simp add: comp_def case_prod_unfold)
  have "map_of (map (\<lambda>(k, v). (k, Text v)) hs) k = map_option Text (map_of hs k)"
    by (induction hs) auto
  then show ?thesis
    by (simp add: spread_def map_of_fold_set_property map_of_rev_distinct [OF d] map_add_def
        split: option.splits)
qed






lemmas sample_defs =
  not_found_response_def fetch_not_found_def no_content_response_def fetch_no_content_def
  bad_gateway_response_def fetch_bad_gateway_def jane_def user_response_def fetch_user_def
  fetch_rejects_string_def fetch_rejects_fetch_error_def sample_stringify_def sample_env_def
  caller_headers_def created_response_def fetch_created_def headers_instance_def
  pair_array_def lowercase_headers_def

lemmas fetchData_defs =
  outcome_fetchData calls_fetchData try_block_def handle_response_def ok_def given_def
  no_options_def build_request_def merge_headers_def spread_def default_headers_def

subsection \<open>When fetchData returns a value\<close>

text \<open>
  Claim C1, as the code has it. \<^verbatim>\<open>fetchData\<close> returns a value if and only if \<^verbatim>\<open>fetch\<close>
  resolved with a response whose status is in the 2xx range, \<^verbatim>\<open>response.json()\<close> resolved
  with a parsed body, and either no schema was supplied or \<^verbatim>\<open>schema.parse\<close> returned for
  that body. Every other outcome is one \<^verbatim>\<open>FetchError\<close> and no value, partial or
  \<^verbatim>\<open>null\<close>, is returned. The condition that the body parses is the one the claim leaves
  out: when \<^verbatim>\<open>response.json()\<close> rejects on a 2xx response with an \<^verbatim>\<open>Error\<close>, as it does for
  a body that is not JSON, the \<^verbatim>\<open>FetchError\<close> carries that error's message and neither
  status nor data, with or without a schema. The same holds for an \<^verbatim>\<open>Error\<close> that \<^verbatim>\<open>fetch\<close>
  rejects with or that \<^verbatim>\<open>schema.parse\<close> throws.
\<close>

theorem fetchData_returns_iff:
  "((\<exists>v. outcome (fetchData fetch url options) = Inr v) \<longleftrightarrow>
      (\<exists>response d. fetch (build_request url (given options)) = Inr response \<and> ok response \<and>
         resp_json response = Inr d \<and>
         (case opt_schema (given options) of None \<Rightarrow> True | Some s \<Rightarrow> \<exists>v. s d = Inr v))) \<and>
   ((\<nexists>v. outcome (fetchData fetch url options) = Inr v) \<longrightarrow>
      (\<exists>e. outcome (fetchData fetch url options) = Inl (FetchError e)) \<and>
      outcome (fetchData fetch url options) \<noteq> Inr JNull) \<and>
   (\<forall>m. (fetch (build_request url (given options)) = Inl (Error m) \<or>
         (\<exists>response. fetch (build_request url (given options)) = Inr response \<and> ok response \<and>
            (resp_json response = Inl (Error m) \<or>
             (\<exists>d s. resp_json response = Inr d \<and> opt_schema (given options) = Some s \<and>
                s d = Inl (Error m))))) \<longrightarrow>
      outcome (fetchData fetch url options) =
        Inl (FetchError \<lparr>message = m, status = None, data = Undefined\<rparr>))"
proof (intro conjI impI allI)
  show "(\<exists>v. outcome (fetchData fetch url options) = Inr v) \<longleftrightarrow>
      (\<exists>response d. fetch (build_request url (given options)) = Inr response \<and> ok response \<and>
         resp_json response = Inr d \<and>
         (case opt_schema (given options) of None \<Rightarrow> True | Some s \<Rightarrow> \<exists>v. s d = Inr v))"
    unfolding outcome_fetchData_Inr try_block_Inr_iff
    by (cases "opt_schema (given options)") auto
next
  assume none: "\<nexists>v. outcome (fetchData fetch url options) = Inr v"
  then obtain t where "outcome (fetchData fetch url options) = Inl t"
    by (cases "outcome (fetchData fetch url options)") auto
  then show "\<exists>e. outcome (fetchData fetch url options) = Inl (FetchError e)"
    using fetchData_failure_typed by blast
  from none show "outcome (fetchData fetch url options) \<noteq> Inr JNull"
    by blast
next
  fix m
  assume "fetch (build_request url (given options)) = Inl (Error m) \<or>
         (\<exists>response. fetch (build_request url (given options)) = Inr response \<and> ok response \<and>
            (resp_json response = Inl (Error m) \<or>
             (\<exists>d s. resp_json response = Inr d \<and> opt_schema (given options) = Some s \<and>
                s d = Inl (Error m))))"
  then have "outcome (fetchData fetch url options) = Inl (catch_block (Error m))"
    by (rule outcome_fetchData_thrown)
  then show "outcome (fetchData fetch url options) =
        Inl (FetchError \<lparr>message = m, status = None, data = Undefined\<rparr>)"
    by simp
qed

theorem fetchData_returns_iff_witness:
  "outcome (fetchData fetch_user ''/api/users/1'' None) = Inr jane \<and>
   fetch_user (build_request ''/api/users/1'' (given None)) = Inr user_response \<and>
   ok user_response \<and> resp_json user_response = Inr jane \<and>
   outcome (fetchData fetch_rejects_string ''/api/users/1'' None) =
     Inl (FetchError \<lparr>message = ''Unknown error'', status = None, data = Undefined\<rparr>) \<and>
   fetch_created (build_request ''/api/users'' (given None)) = Inr created_response \<and>
   fetch_no_content (build_request ''/api/posts/1'' (given None)) = Inr no_content_response \<and>
   ok no_content_response \<and>
   resp_json no_content_response = Inl (Error ''Unexpected end of JSON input'') \<and>
   outcome (fetchData fetch_no_content ''/api/posts/1''
      (Some (no_options\<lparr>opt_schema := Some email_schema\<rparr>))) =
     Inl (FetchError \<lparr>message = ''Unexpected end of JSON input'', status = None,
            data = Undefined\<rparr>)"
  using fetchData_returns_iff [of fetch_user "''/api/users/1''" None]
    fetchData_returns_iff [of fetch_rejects_string "''/api/users/1''" None]
    fetchData_returns_iff [of fetch_no_content "''/api/posts/1''"
      "Some (no_options\<lparr>opt_schema := Some email_schema\<rparr>)"]
  by (simp add: sample_defs fetchData_defs)

text \<open>
  Claim C1, as stated, fails: a response 204 with an empty body and no schema supplied is
  a 2xx response, and \<^verbatim>\<open>fetchData\<close> throws.
\<close>

theorem fetchData_no_content_counterexample:
  "fetch_no_content (build_request ''/api/posts/1'' (given None)) = Inr no_content_response \<and>
   ok no_content_response \<and> opt_schema (given None) = None \<and>
   outcome (fetchData fetch_no_content ''/api/posts/1'' None) =
     Inl (FetchError \<lparr>message = ''Unexpected end of JSON input'', status = None, data = Undefined\<rparr>)"
  by (simp add: sample_defs fetchData_defs)

subsection \<open>Responses outside the 2xx range\<close>

text \<open>
  Claim C2. When \<^verbatim>\<open>fetch\<close> resolves with a response whose status is outside the 2xx
  range, \<^verbatim>\<open>fetchData\<close> throws a \<^verbatim>\<open>FetchError\<close> whose status is that code, whose message
  is \<^verbatim>\<open>HTTP error! status: \<close> followed by the decimal numeral of the code, and whose data
  is the parsed body when \<^verbatim>\<open>response.json()\<close> resolved.
\<close>

theorem fetchData_http_error:
  assumes "fetch (build_request url (given options)) = Inr response"
    and "\<not> ok response"
  shows "\<exists>e. outcome (fetchData fetch url options) = Inl (FetchError e) \<and>
           status e = Some (resp_status response) \<and>
           message e = ''HTTP error! status: '' @ show_nat (resp_status response) \<and>
           read_nat (show_nat (resp_status response)) = resp_status response \<and>
           (\<forall>d. resp_json response = Inr d \<longrightarrow> data e = JsonValue d)"
  using assms
  by (simp add: outcome_fetchData try_block_def handle_response_def read_nat_show_nat)

theorem fetchData_http_error_witness:
  "fetch_not_found (build_request ''/api/users/1'' (given None)) = Inr not_found_response \<and>
   \<not> ok not_found_response \<and>
   outcome (fetchData fetch_not_found ''/api/users/1'' None) =
     Inl (FetchError \<lparr>message = ''HTTP error! status: 404'', status = Some 404,
            data = JsonValue (JObj [(''message'', JStr ''not found'')])\<rparr>)"
  using fetchData_http_error [of fetch_not_found "''/api/users/1''" None not_found_response]
  by (simp add: sample_defs fetchData_defs show_nat_404)

text \<open>
  Claim C3. When the status is outside the 2xx range and \<^verbatim>\<open>response.json()\<close> rejects,
  whatever it rejects with, \<^verbatim>\<open>fetchData\<close> throws the one \<^verbatim>\<open>FetchError\<close> of the HTTP
  failure, with the status and the message of that failure. Its data is absent: the field
  holds \<^verbatim>\<open>null\<close>, the value that \<^verbatim>\<open>.catch(() => null)\<close> puts in place of the body. The
  value the parse rejected with appears nowhere in the outcome.
\<close>

theorem unparseable_error_body_absent:
  assumes "fetch (build_request url (given options)) = Inr response"
    and "\<not> ok response"
    and "resp_json response = Inl t"
  shows "\<exists>e. outcome (fetchData fetch url options) = Inl (FetchError e) \<and>
           absent (data e) \<and> data e = JsonValue JNull \<and>
           status e = Some (resp_status response) \<and>
           message e = ''HTTP error! status: '' @ show_nat (resp_status response)"
  using assms by (simp add: outcome_fetchData try_block_def handle_response_def absent_def)

theorem unparseable_error_body_absent_witness:
  "fetch_bad_gateway (build_request ''/api/posts'' (given None)) = Inr bad_gateway_response \<and>
   \<not> ok bad_gateway_response \<and>
   resp_json bad_gateway_response = Inl (Error ''Unexpected token < in JSON at position 0'') \<and>
   outcome (fetchData fetch_bad_gateway ''/api/posts'' None) =
     Inl (FetchError \<lparr>message = ''HTTP error! status: 502'', status = Some 502,
            data = JsonValue JNull\<rparr>) \<and>
   absent (JsonValue JNull)"
  using unparseable_error_body_absent [of fetch_bad_gateway "''/api/posts''" None
      bad_gateway_response "Error ''Unexpected token < in JSON at position 0''"]
  by (simp add: sample_defs fetchData_defs show_nat_502 absent_def)

subsection \<open>Responses in the 2xx range\<close>

text \<open>
  Claim C4. For a 2xx response whose body parsed, with a schema supplied: when
  \<^verbatim>\<open>schema.parse\<close> returns, \<^verbatim>\<open>fetchData\<close> returns the value it returned; when it throws
  a \<^verbatim>\<open>ZodError\<close>, which is how Zod reports a body that does not satisfy the schema,
  \<^verbatim>\<open>fetchData\<close> throws a \<^verbatim>\<open>FetchError\<close> with the message \<^verbatim>\<open>Response validation failed\<close>,
  no status, and the \<^verbatim>\<open>ZodError\<close> as data.
\<close>

theorem fetchData_validated:
  assumes "fetch (build_request url (given options)) = Inr response"
    and "ok response"
    and "resp_json response = Inr d"
    and "opt_schema (given options) = Some s"
  shows "(\<forall>v. s d = Inr v \<longrightarrow> outcome (fetchData fetch url options) = Inr v) \<and>
         (\<forall>z. s d = Inl (ZodError z) \<longrightarrow>
            outcome (fetchData fetch url options) =
              Inl (FetchError \<lparr>message = ''Response validation failed'', status = None,
                     data = ZodErrorValue z\<rparr>))"
  using assms by (simp add: outcome_fetchData try_block_def handle_response_def)

theorem fetchData_validated_witness:
  "fetch_user (build_request ''/api/users/1''
      (given (Some (no_options\<lparr>opt_schema := Some email_schema\<rparr>)))) = Inr user_response \<and>
   ok user_response \<and> resp_json user_response = Inr jane \<and>
   email_schema jane = Inr (JObj [(''email'', JStr ''jane@x.com'')]) \<and>
   outcome (fetchData fetch_user ''/api/users/1''
      (Some (no_options\<lparr>opt_schema := Some email_schema\<rparr>))) =
     Inr (JObj [(''email'', JStr ''jane@x.com'')]) \<and>
   fetch_created (build_request ''/api/users''
      (given (Some (no_options\<lparr>opt_schema := Some email_schema\<rparr>)))) = Inr created_response \<and>
   ok created_response \<and> resp_json created_response = Inr (JObj [(''name'', JStr ''Jane'')]) \<and>
   email_schema (JObj [(''name'', JStr ''Jane'')]) =
     Inl (ZodError (ZodIssues [([''email''], ''Invalid input'')])) \<and>
   outcome (fetchData fetch_created ''/api/users''
      (Some (no_options\<lparr>opt_schema := Some email_schema\<rparr>))) =
     Inl (FetchError \<lparr>message = ''Response validation failed'', status = None,
            data = ZodErrorValue (ZodIssues [([''email''], ''Invalid input'')])\<rparr>)"
  using fetchData_validated [of fetch_user "''/api/users/1''"
      "Some (no_options\<lparr>opt_schema := Some email_schema\<rparr>)" user_response jane email_schema]
    fetchData_validated [of fetch_created "''/api/users''"
      "Some (no_options\<lparr>opt_schema := Some email_schema\<rparr>)" created_response
      "JObj [(''name'', JStr ''Jane'')]" email_schema]
  by (simp add: sample_defs fetchData_defs)

text \<open>
  Claim C5. For a 2xx response whose body parsed, with no schema supplied, \<^verbatim>\<open>fetchData\<close>
  returns the parsed body itself.
\<close>

theorem fetchData_identity:
  assumes "fetch (build_request url (given options)) = Inr response"
    and "ok response"
    and "resp_json response = Inr d"
    and "opt_schema (given options) = None"
  shows "outcome (fetchData fetch url options) = Inr d"
  using assms by (simp add: outcome_fetchData try_block_def handle_response_def)

theorem fetchData_identity_witness:
  "fetch_user (build_request ''/api/users/1'' (given None)) = Inr user_response \<and>
   ok user_response \<and> resp_json user_response = Inr jane \<and> opt_schema (given None) = None \<and>
   outcome (fetchData fetch_user ''/api/users/1'' None) = Inr jane"
  using fetchData_identity [of fetch_user "''/api/users/1''" None user_response jane]
  by (simp add: sample_defs fetchData_defs)

subsection \<open>The catch block\<close>

text \<open>
  Claim C10. A value thrown inside the \<^verbatim>\<open>try\<close> block, by \<^verbatim>\<open>fetch\<close>, by
  \<^verbatim>\<open>response.json()\<close> on a 2xx response or by \<^verbatim>\<open>schema.parse\<close>, reaches the \<^verbatim>\<open>catch\<close>
  block. When it is no \<^verbatim>\<open>Error\<close> instance, \<^verbatim>\<open>fetchData\<close> throws a \<^verbatim>\<open>FetchError\<close> with the
  message \<^verbatim>\<open>Unknown error\<close>, no status and no data; when it is a \<^verbatim>\<open>FetchError\<close>,
  \<^verbatim>\<open>fetchData\<close> throws that same error.
\<close>

theorem fetchData_unknown_and_rethrow:
  assumes "fetch (build_request url (given options)) = Inl t \<or>
           (\<exists>response. fetch (build_request url (given options)) = Inr response \<and> ok response \<and>
              (resp_json response = Inl t \<or>
               (\<exists>d s. resp_json response = Inr d \<and> opt_schema (given options) = Some s \<and>
                  s d = Inl t)))"
  shows "(\<forall>v. t = NonError v \<longrightarrow>
            outcome (fetchData fetch url options) =
              Inl (FetchError \<lparr>message = ''Unknown error'', status = None, data = Undefined\<rparr>)) \<and>
         (\<forall>e. t = FetchError e \<longrightarrow>
            outcome (fetchData fetch url options) = Inl (FetchError e))"
proof -
  from assms
  have "try_block fetch (build_request url (given options)) (opt_schema (given options)) = Inl t"
    by (auto simp: try_block_def handle_response_def)
  then have "outcome (fetchData fetch url options) = Inl (catch_block t)"
    by (simp add: outcome_fetchData)
  then show ?thesis by simp
qed

theorem fetchData_unknown_and_rethrow_witness:
  "fetch_rejects_string (build_request ''/api/posts'' (given None)) =
     Inl (NonError (JStr ''offline'')) \<and>
   outcome (fetchData fetch_rejects_string ''/api/posts'' None) =
     Inl (FetchError \<lparr>message = ''Unknown error'', status = None, data = Undefined\<rparr>) \<and>
   fetch_rejects_fetch_error (build_request ''/api/posts'' (given None)) =
     Inl (FetchError \<lparr>message = ''aborted'', status = Some 499, data = JsonValue (JBool False)\<rparr>) \<and>
   outcome (fetchData fetch_rejects_fetch_error ''/api/posts'' None) =
     Inl (FetchError \<lparr>message = ''aborted'', status = Some 499, data = JsonValue (JBool False)\<rparr>)"
  using fetchData_unknown_and_rethrow [of fetch_rejects_string "''/api/posts''" None
      "NonError (JStr ''offline'')"]
    fetchData_unknown_and_rethrow [of fetch_rejects_fetch_error "''/api/posts''" None
      "FetchError \<lparr>message = ''aborted'', status = Some 499, data = JsonValue (JBool False)\<rparr>"]
  by (simp add: fetch_rejects_string_def fetch_rejects_fetch_error_def)

subsection \<open>The request that is issued\<close>

text \<open>
  For a caller that gives its headers as a plain object, or gives none, the one request
  that \<^verbatim>\<open>fetchData\<close> issues carries, for every key, the caller's value when the caller has
  that key, and otherwise the default: \<^verbatim>\<open>application/json\<close> for \<^verbatim>\<open>Content-Type\<close>, nothing
  for any other key.
\<close>

lemma fetchData_headers_plain_object:
  assumes "opt_headers (given options) = None \<and> hs = [] \<or>
           opt_headers (given options) = Some (PlainObject hs) \<and> distinct (map fst hs)"
  shows "\<exists>req. calls (fetchData fetch url options) = [req] \<and> req_url req = url \<and>
     (\<forall>k. map_of (req_headers req) k =
        (case map_of hs k of
           Some v \<Rightarrow> Some (Text v)
         | None \<Rightarrow> if k = ''Content-Type'' then Some (Text ''application/json'') else None))"
proof -
  have "map_of (merge_headers (opt_headers (given options))) k =
        (case map_of hs k of
           Some v \<Rightarrow> Some (Text v)
         | None \<Rightarrow> if k = ''Content-Type'' then Some (Text ''application/json'') else None)"
    for k
    using assms
  proof (elim disjE conjE)
    assume "opt_headers (given options) = None" and "hs = []"
    then show ?thesis
      by (simp add: merge_headers_def default_headers_def)
  next
    assume h: "opt_headers (given options) = Some (PlainObject hs)"
      and d: "distinct (map fst hs)"
    have "map_of (spread default_headers (own_properties (PlainObject hs))) k =
        (case map_of hs k of Some v \<Rightarrow> Some (Text v) | None \<Rightarrow> map_of default_headers k)"
      using d by (rule map_of_spread_plain)
    then show ?thesis
      by (simp add: h merge_headers_def default_headers_def del: own_properties.simps
          split: option.splits)
  qed
  then show ?thesis
    by (simp add: calls_fetchData build_request_def)
qed

text \<open>
  Claim C8 fails on the code for callers that give their headers in the other forms of
  \<^verbatim>\<open>HeadersInit\<close>. With \<^verbatim>\<open>new Headers({ Authorization: 'Bearer token' })\<close> the request
  carries the default header alone; with \<^verbatim>\<open>[['Authorization', 'Bearer token']]\<close> it
  carries a property \<^verbatim>\<open>0\<close> whose value is the pair, and no property \<^verbatim>\<open>Authorization\<close>; and
  with \<^verbatim>\<open>{ 'content-type': 'text/plain' }\<close> the default \<^verbatim>\<open>Content-Type\<close> stays beside the
  caller's property, where \<^verbatim>\<open>fetch\<close>, for which the two names are one header, sends both
  values.
\<close>

theorem fetchData_headers_not_merged:
  "calls (fetchData fetch_user ''/api/users/1''
      (Some (no_options\<lparr>opt_headers := Some headers_instance\<rparr>))) =
     [\<lparr>req_url = ''/api/users/1'', req_method = None, req_body = None,
       req_headers = [(''Content-Type'', Text ''application/json'')]\<rparr>] \<and>
   calls (fetchData fetch_user ''/api/users/1''
      (Some (no_options\<lparr>opt_headers := Some pair_array\<rparr>))) =
     [\<lparr>req_url = ''/api/users/1'', req_method = None, req_body = None,
       req_headers = [(''Content-Type'', Text ''application/json''),
                      (''0'', Pair [''Authorization'', ''Bearer token''])]\<rparr>] \<and>
   calls (fetchData fetch_user ''/api/users/1''
      (Some (no_options\<lparr>opt_headers := Some lowercase_headers\<rparr>))) =
     [\<lparr>req_url = ''/api/users/1'', req_method = None, req_body = None,
       req_headers = [(''Content-Type'', Text ''application/json''),
                      (''content-type'', Text ''text/plain'')]\<rparr>] \<and>
   calls (fetchData fetch_user ''/api/users/1''
      (Some (no_options\<lparr>opt_headers := Some caller_headers\<rparr>))) =
     [\<lparr>req_url = ''/api/users/1'', req_method = None, req_body = None,
       req_headers = [(''Content-Type'', Text ''text/plain''),
                      (''Authorization'', Text ''Bearer token'')]\<rparr>]"
  by (simp add: sample_defs fetchData_defs show_nat_0)

subsection \<open>The helpers\<close>

text \<open>
  Claim C7. \<^verbatim>\<open>deletePost\<close> with an identifier that is not of the format (five groups of
  8, 4, 4, 4 and 12 hexadecimal digits of either case, joined by hyphens) throws an
  \<^verbatim>\<open>Error\<close> with the message \<^verbatim>\<open>Invalid post ID format\<close> and issues no request. With an
  identifier of the format it is \<^verbatim>\<open>deleteResource\<close> on \<^verbatim>\<open>/api/posts/\<close> followed by the
  identifier, and that goes through \<^verbatim>\<open>fetchData\<close>: it issues the requests of
  \<^verbatim>\<open>fetchData\<close> for that URL with the method \<^verbatim>\<open>DELETE\<close>, which is one request; it fails with
  the error \<^verbatim>\<open>fetchData\<close> fails with; and it returns exactly when \<^verbatim>\<open>fetchData\<close> returns,
  that is when that request goes through without a failure.
\<close>

theorem deletePost_format_check:
  "(\<not> canonical_uuid postId \<longrightarrow>
      deletePost env postId = \<lparr>outcome = Inl (Error ''Invalid post ID format''), calls = []\<rparr>) \<and>
   (canonical_uuid postId \<longrightarrow>
      deletePost env postId = deleteResource env (''/api/posts/'' @ postId) \<and>
      calls (deletePost env postId) =
        [\<lparr>req_url = ''/api/posts/'' @ postId, req_method = Some ''DELETE'', req_body = None,
          req_headers = default_headers\<rparr>] \<and>
      calls (deletePost env postId) =
        calls (fetchData (net_fetch env) (''/api/posts/'' @ postId)
          (Some \<lparr>opt_schema = None, opt_method = Some ''DELETE'', opt_body = None,
                 opt_headers = None\<rparr>)) \<and>
      outcome (deletePost env postId) =
        (case outcome (fetchData (net_fetch env) (''/api/posts/'' @ postId)
           (Some \<lparr>opt_schema = None, opt_method = Some ''DELETE'', opt_body = None,
                  opt_headers = None\<rparr>)) of Inl e \<Rightarrow> Inl e | Inr v \<Rightarrow> Inr ()) \<and>
      (outcome (deletePost env postId) = Inr () \<longleftrightarrow>
         completes (net_fetch env)
           \<lparr>req_url = ''/api/posts/'' @ postId, req_method = Some ''DELETE'', req_body = None,
            req_headers = default_headers\<rparr> None))"
proof (intro conjI impI)
  assume "\<not> canonical_uuid postId"
  then show "deletePost env postId =
      \<lparr>outcome = Inl (Error ''Invalid post ID format''), calls = []\<rparr>"
    by (simp add: deletePost_def throw_early_def uuid_test_canonical)
next
  assume "canonical_uuid postId"
  then show d: "deletePost env postId = deleteResource env (''/api/posts/'' @ postId)"
    by (simp add: deletePost_def uuid_test_canonical)
  show "calls (deletePost env postId) =
        [\<lparr>req_url = ''/api/posts/'' @ postId, req_method = Some ''DELETE'', req_body = None,
          req_headers = default_headers\<rparr>]"
    by (simp add: d calls_deleteResource)
  show "calls (deletePost env postId) =
        calls (fetchData (net_fetch env) (''/api/posts/'' @ postId)
          (Some \<lparr>opt_schema = None, opt_method = Some ''DELETE'', opt_body = None,
                 opt_headers = None\<rparr>))"
    by (simp add: d deleteResource_def Let_def)
  show "outcome (deletePost env postId) =
        (case outcome (fetchData (net_fetch env) (''/api/posts/'' @ postId)
           (Some \<lparr>opt_schema = None, opt_method = Some ''DELETE'', opt_body = None,
                  opt_headers = None\<rparr>)) of Inl e \<Rightarrow> Inl e | Inr v \<Rightarrow> Inr ())"
    by (simp add: d outcome_deleteResource)
  show "outcome (deletePost env postId) = Inr () \<longleftrightarrow>
         completes (net_fetch env)
           \<lparr>req_url = ''/api/posts/'' @ postId, req_method = Some ''DELETE'', req_body = None,
            req_headers = default_headers\<rparr> None"
    by (simp add: d deleteResource_returns_completes)
qed

theorem deletePost_format_check_witness:
  "\<not> canonical_uuid ''abc'' \<and>
   deletePost sample_env ''abc'' =
     \<lparr>outcome = Inl (Error ''Invalid post ID format''), calls = []\<rparr> \<and>
   canonical_uuid ''550e8400-e29b-41d4-a716-446655440000'' \<and>
   calls (deletePost sample_env ''550e8400-e29b-41d4-a716-446655440000'') =
     [\<lparr>req_url = ''/api/posts/550e8400-e29b-41d4-a716-446655440000'',
       req_method = Some ''DELETE'', req_body = None, req_headers = default_headers\<rparr>] \<and>
   outcome (deletePost sample_env ''550e8400-e29b-41d4-a716-446655440000'') =
     Inl (FetchError \<lparr>message = ''HTTP error! status: 404'', status = Some 404,
            data = JsonValue (JObj [(''message'', JStr ''not found'')])\<rparr>) \<and>
   outcome (deletePost (sample_env\<lparr>net_fetch := fetch_user\<rparr>)
      ''550e8400-e29b-41d4-a716-446655440000'') = Inr ()"
  using deletePost_format_check [of "''abc''" sample_env]
    deletePost_format_check [of "''550e8400-e29b-41d4-a716-446655440000''" sample_env]
    deletePost_format_check [of "''550e8400-e29b-41d4-a716-446655440000''"
      "sample_env\<lparr>net_fetch := fetch_user\<rparr>"]
    uuid_test_abc uuid_test_sample
  by (simp add: uuid_test_canonical sample_defs fetchData_defs completes_def show_nat_404
      outcome_deleteResource calls_deleteResource)

text \<open>
  Claim C9, as the code has it. When the name or the email is the empty string,
  \<^verbatim>\<open>updateUser\<close> issues no request and throws an \<^verbatim>\<open>Error\<close>: with the message
  \<^verbatim>\<open>Name and email are required\<close> when the user identifier is of the format, and with the
  message \<^verbatim>\<open>Invalid user ID format\<close> when it is not, since the identifier is tested first.
\<close>

theorem updateUser_empty_fields:
  assumes "name u = [] \<or> email u = []"
  shows "calls (updateUser env userId u) = [] \<and>
         outcome (updateUser env userId u) =
           Inl (Error (if canonical_uuid userId then ''Name and email are required''
                       else ''Invalid user ID format''))"
  using assms by (auto simp: updateUser_def throw_early_def uuid_test_canonical)

theorem updateUser_empty_fields_witness:
  "name \<lparr>name = [], email = ''jane@x.com''\<rparr> = [] \<and>
   canonical_uuid ''550e8400-e29b-41d4-a716-446655440000'' \<and>
   calls (updateUser sample_env ''550e8400-e29b-41d4-a716-446655440000''
            \<lparr>name = [], email = ''jane@x.com''\<rparr>) = [] \<and>
   outcome (updateUser sample_env ''550e8400-e29b-41d4-a716-446655440000''
            \<lparr>name = [], email = ''jane@x.com''\<rparr>) = Inl (Error ''Name and email are required'')"
  using updateUser_empty_fields [of "\<lparr>name = [], email = ''jane@x.com''\<rparr>" sample_env
      "''550e8400-e29b-41d4-a716-446655440000''"] uuid_test_sample
  by (simp add: uuid_test_canonical)

text \<open>
  Claim C9, as stated, fails: with the identifier \<^verbatim>\<open>abc\<close> and an empty name the message
  is \<^verbatim>\<open>Invalid user ID format\<close>.
\<close>

theorem updateUser_empty_name_counterexample:
  "name \<lparr>name = [], email = ''jane@x.com''\<rparr> = [] \<and>
   outcome (updateUser sample_env ''abc'' \<lparr>name = [], email = ''jane@x.com''\<rparr>) =
     Inl (Error ''Invalid user ID format'') \<and>
   Error ''Invalid user ID format'' \<noteq> Error ''Name and email are required''"
  by (simp add: updateUser_def throw_early_def uuid_test_abc)




end
